theory Spec2Isabelle
  imports Complex_Main
begin

section \<open>BlueNet boundary crossing engine (src/geofencing.py)\<close>

text \<open>
  A shallow embedding of \<^verbatim>\<open>BoundaryCrossingEngine\<close> and of the \<^verbatim>\<open>/gps\<close> request handler.
  Python floats are modelled as \<^typ>\<open>real\<close> (no NaN, no infinity), Python ints as \<^typ>\<open>int\<close>.
  Everything the engine obtains from outside the repository is an explicit input:
  \<^item> \<^verbatim>\<open>india_polygon.contains(Point(lon, lat))\<close> (shapely) is the field \<open>india_polygon\<close>, a
    predicate on the planar point \<open>(x, y) = (lon, lat)\<close>;
  \<^item> \<^verbatim>\<open>geodesic(a, b).meters\<close> (geopy) is a function parameter \<open>geodesic\<close> on pairs
    \<open>(lat, lon)\<close>;
  \<^item> \<^verbatim>\<open>time.time()\<close>, the row id returned by the event log and the outcome of the outbound
    call are fields of the record \<open>env\<close>.
  The two library calls are taken to return a value: a position or a vertex on which
  shapely or geopy would raise is outside the model (through the \<^verbatim>\<open>/gps\<close> route the
  position is range-checked before the engine sees it).
\<close>

subsection \<open>Configuration\<close>

record config =
  CALL_COOLDOWN_SECONDS :: real
  MAX_EMERGENCY_CALLS :: int

text \<open>The values of \<^verbatim>\<open>class Config\<close>.\<close>

definition Config :: config where
  "Config = \<lparr>CALL_COOLDOWN_SECONDS = 30, MAX_EMERGENCY_CALLS = 3\<rparr>"

subsection \<open>Engine state\<close>

text \<open>A coordinate of a shapely geometry: \<open>(x, y) = (longitude, latitude)\<close>.\<close>

type_synonym coord = "real \<times> real"

text \<open>\<^verbatim>\<open>geodesic((lat1, lon1), (lat2, lon2)).meters\<close>.\<close>

type_synonym geodesic_fn = "real \<times> real \<Rightarrow> real \<times> real \<Rightarrow> real"

text \<open>The attributes set by the constructor of \<^verbatim>\<open>BoundaryCrossingEngine\<close>.\<close>

record engine =
  india_polygon :: "coord \<Rightarrow> bool"
  boundary_lines :: "coord list list"
  session_id :: string
  current_inside_boundary :: bool
  last_inside_boundary :: bool
  boundary_crossings :: int
  last_call_time :: "real option"
  calls_for_current_crossing :: int

text \<open>The constructor: the state a fresh engine starts in.\<close>

definition init_engine :: "(coord \<Rightarrow> bool) \<Rightarrow> coord list list \<Rightarrow> string \<Rightarrow> engine" where
  "init_engine polygon lines sid =
     \<lparr>india_polygon = polygon, boundary_lines = lines, session_id = sid,
      current_inside_boundary = True, last_inside_boundary = True,
      boundary_crossings = 0, last_call_time = None, calls_for_current_crossing = 0\<rparr>"

text \<open>
  The dictionary returned by \<^verbatim>\<open>process_gps\<close>. The keys \<^verbatim>\<open>call_reason\<close> and
  \<^verbatim>\<open>emergency_call_made\<close> are only present on some paths: \<open>None\<close> is the absent key.
\<close>

record result =
  r_session_id :: string
  latitude :: real
  longitude :: real
  inside_boundary :: bool
  boundary_crossed :: bool
  crossing_direction :: "string option"
  distance_to_boundary :: real
  total_crossings :: int
  requires_emergency_call :: bool
  event_id :: int
  call_reason :: "string option"
  emergency_call_made :: "bool option"

subsection \<open>The escalation throttle\<close>

text \<open>
  Python truth value of an \<^verbatim>\<open>Optional[float]\<close>: \<^verbatim>\<open>None\<close> and \<^verbatim>\<open>0.0\<close> are false,
  every other float is true.
\<close>

definition truthy :: "real option \<Rightarrow> bool" where
  "truthy x = (case x of None \<Rightarrow> False | Some t \<Rightarrow> t \<noteq> 0)"

text \<open>
  \<^verbatim>\<open>
  def _should_make_emergency_call(self, current_time):
      if self.calls_for_current_crossing >= Config.MAX_EMERGENCY_CALLS:
          return False
      if self.last_call_time and (current_time - self.last_call_time) < Config.CALL_COOLDOWN_SECONDS:
          return False
      return True
  \<close>
  \<^verbatim>\<open>and\<close> evaluates its right operand only when the left one is true, so
  \<open>the (last_call_time self)\<close> is only read under \<open>truthy\<close>.
\<close>

definition should_make_emergency_call :: "config \<Rightarrow> engine \<Rightarrow> real \<Rightarrow> bool" where
  "should_make_emergency_call cfg self current_time =
     (if calls_for_current_crossing self \<ge> MAX_EMERGENCY_CALLS cfg then False
      else if truthy (last_call_time self) \<and>
              current_time - the (last_call_time self) < CALL_COOLDOWN_SECONDS cfg then False
      else True)"

text \<open>
  The rule as the specification words it (section 4.3): true iff the episode's count is below
  the quota and the last escalation time is unset or at least the cooldown ago.
\<close>

definition mayEscalate_spec :: "config \<Rightarrow> engine \<Rightarrow> real \<Rightarrow> bool" where
  "mayEscalate_spec cfg self now =
     (calls_for_current_crossing self < MAX_EMERGENCY_CALLS cfg \<and>
      (case last_call_time self of
         None \<Rightarrow> True
       | Some t \<Rightarrow> now - t \<ge> CALL_COOLDOWN_SECONDS cfg))"

subsection \<open>Distance to the boundary lines\<close>

text \<open>
  \<^verbatim>\<open>min(min_distance, dist1, dist2)\<close> where \<open>min_distance\<close> starts as \<^verbatim>\<open>float("inf")\<close>:
  \<open>None\<close> stands for infinity.
\<close>

definition min_inf :: "real option \<Rightarrow> real \<Rightarrow> real \<Rightarrow> real option" where
  "min_inf m d1 d2 = (case m of None \<Rightarrow> Some (min d1 d2) | Some x \<Rightarrow> Some (min x (min d1 d2)))"

text \<open>
  The inner loop \<^verbatim>\<open>for i in range(len(line.coords) - 1)\<close>: it visits the consecutive pairs
  \<open>p1 = coords[i]\<close>, \<open>p2 = coords[i + 1]\<close>; a line with fewer than two coordinates is skipped.
  A coordinate is \<open>(lon, lat)\<close> and geodesic takes \<open>(lat, lon)\<close>, hence \<open>(snd p, fst p)\<close>.
\<close>

fun scan_line :: "geodesic_fn \<Rightarrow> real \<Rightarrow> real \<Rightarrow> coord list \<Rightarrow> real option \<Rightarrow> real option" where
  "scan_line geodesic lat lon (p1 # p2 # ps) m =
     scan_line geodesic lat lon (p2 # ps)
       (min_inf m (geodesic (lat, lon) (snd p1, fst p1)) (geodesic (lat, lon) (snd p2, fst p2)))"
| "scan_line geodesic lat lon ps m = m"

text \<open>The outer loop \<^verbatim>\<open>for line in self.boundary_lines\<close>.\<close>

fun scan_lines :: "geodesic_fn \<Rightarrow> real \<Rightarrow> real \<Rightarrow> coord list list \<Rightarrow> real option \<Rightarrow> real option" where
  "scan_lines geodesic lat lon [] m = m"
| "scan_lines geodesic lat lon (line # lines) m =
     scan_lines geodesic lat lon lines (scan_line geodesic lat lon line m)"

text \<open>\<^verbatim>\<open>return min_distance if min_distance != float("inf") else 0\<close>.\<close>

definition calculate_boundary_distance :: "geodesic_fn \<Rightarrow> engine \<Rightarrow> real \<Rightarrow> real \<Rightarrow> real" where
  "calculate_boundary_distance geodesic self lat lon =
     (case scan_lines geodesic lat lon (boundary_lines self) None of
        None \<Rightarrow> 0
      | Some d \<Rightarrow> d)"

subsection \<open>Processing one observation\<close>

text \<open>What one request reads from its environment.\<close>

record env =
  time_process :: real
  logged_event_id :: int
  call_success :: bool
  time_call :: real

text \<open>
  \<^verbatim>\<open>process_gps\<close>: \<open>current_time\<close> is the value of \<^verbatim>\<open>time.time()\<close> read on entry and
  \<open>eid\<close> the value returned by \<^verbatim>\<open>_log_boundary_event\<close> (which catches its own exceptions
  and does not touch the engine). The function returns the result dictionary and the
  updated engine.
\<close>

definition process_gps ::
  "geodesic_fn \<Rightarrow> config \<Rightarrow> engine \<Rightarrow> real \<Rightarrow> real \<Rightarrow> real \<Rightarrow> real \<Rightarrow> int \<Rightarrow> result \<times> engine" where
  "process_gps geodesic cfg self lat lon accuracy current_time eid =
     (let inside = india_polygon self (lon, lat);
          distance = calculate_boundary_distance geodesic self lat lon;
          crossed = (inside \<noteq> last_inside_boundary self);
          self1 = (if crossed
                   then self\<lparr>boundary_crossings := boundary_crossings self + 1,
                             calls_for_current_crossing := 0\<rparr>
                   else self);
          direction = (if crossed
                       then (if inside then Some ''ENTERED_INDIAN_WATERS''
                             else Some ''EXITED_INDIAN_WATERS'')
                       else None);
          self2 = self1\<lparr>last_inside_boundary := inside, current_inside_boundary := inside\<rparr>;
          res = \<lparr>r_session_id = session_id self2, latitude = lat, longitude = lon,
                 inside_boundary = inside, boundary_crossed = crossed,
                 crossing_direction = direction, distance_to_boundary = distance,
                 total_crossings = boundary_crossings self2,
                 requires_emergency_call = False, event_id = eid,
                 call_reason = None, emergency_call_made = None\<rparr>;
          res' = (if crossed \<and> \<not> inside
                  then (if should_make_emergency_call cfg self2 current_time
                        then res\<lparr>requires_emergency_call := True,
                                 call_reason := Some ''BOUNDARY_VIOLATION''\<rparr>
                        else res)
                  else res)
      in (res', self2))"

text \<open>
  The caller's handling of \<^verbatim>\<open>requires_emergency_call\<close>, the same in \<^verbatim>\<open>gps_endpoint\<close> and in
  \<^verbatim>\<open>_run_test_scenarios\<close>: the call is attempted, and only a successful call sets
  \<^verbatim>\<open>last_call_time\<close> and increments \<^verbatim>\<open>calls_for_current_crossing\<close>.
  (The test driver does not set \<^verbatim>\<open>emergency_call_made\<close>; the flag \<open>mark\<close> says whether the
  caller does.)
\<close>

definition handle_emergency_call :: "bool \<Rightarrow> env \<Rightarrow> result \<times> engine \<Rightarrow> result \<times> engine" where
  "handle_emergency_call mark e p =
     (case p of (res, self) \<Rightarrow>
        if requires_emergency_call res
        then (if call_success e
              then ((if mark then res\<lparr>emergency_call_made := Some True\<rparr> else res),
                    self\<lparr>last_call_time := Some (time_call e),
                         calls_for_current_crossing := calls_for_current_crossing self + 1\<rparr>)
              else (res, self))
        else (res, self))"

text \<open>The responses of the \<^verbatim>\<open>/gps\<close> route that are not a result: status 400 and 500.\<close>

datatype error = Bad_request string | Internal_error

text \<open>
  \<^verbatim>\<open>gps_endpoint\<close>. The three request arguments arrive after \<^verbatim>\<open>float(...)\<close>: \<open>None\<close> is an
  argument on which \<^verbatim>\<open>float\<close> raised, which the handler's \<^verbatim>\<open>except\<close> turns into status 500
  before the engine is reached.
\<close>

definition gps_endpoint ::
  "geodesic_fn \<Rightarrow> config \<Rightarrow> engine \<Rightarrow> real option \<Rightarrow> real option \<Rightarrow> real option \<Rightarrow> env
     \<Rightarrow> (error + result) \<times> engine" where
  "gps_endpoint geodesic cfg ENGINE lat_arg lon_arg accuracy_arg e =
     (case lat_arg of None \<Rightarrow> (Inl Internal_error, ENGINE) | Some lat \<Rightarrow>
     (case lon_arg of None \<Rightarrow> (Inl Internal_error, ENGINE) | Some lon \<Rightarrow>
     (case accuracy_arg of None \<Rightarrow> (Inl Internal_error, ENGINE) | Some accuracy \<Rightarrow>
        if \<not> (- 90 \<le> lat \<and> lat \<le> 90) \<or> \<not> (- 180 \<le> lon \<and> lon \<le> 180)
        then (Inl (Bad_request ''Invalid coordinates''), ENGINE)
        else (case handle_emergency_call True e
                     (process_gps geodesic cfg ENGINE lat lon accuracy
                        (time_process e) (logged_event_id e))
              of (res, ENGINE') \<Rightarrow> (Inr res, ENGINE')))))"

text \<open>One request to the route: its three parsed arguments and its environment.\<close>

record request =
  lat_arg :: "real option"
  lon_arg :: "real option"
  accuracy_arg :: "real option"
  request_env :: env

text \<open>
  A sequence of requests served one after the other, each on the engine the previous one
  left; the list of the result dictionaries returned (a rejected request returns none).
\<close>

fun serve :: "geodesic_fn \<Rightarrow> config \<Rightarrow> engine \<Rightarrow> request list \<Rightarrow> result list" where
  "serve geodesic cfg ENGINE [] = []"
| "serve geodesic cfg ENGINE (rq # rqs) =
     (case gps_endpoint geodesic cfg ENGINE (lat_arg rq) (lon_arg rq) (accuracy_arg rq)
             (request_env rq)
      of (Inl err, ENGINE') \<Rightarrow> serve geodesic cfg ENGINE' rqs
       | (Inr res, ENGINE') \<Rightarrow> res # serve geodesic cfg ENGINE' rqs)"

subsection \<open>The demonstration geometry\<close>

text \<open>
  The region and the line written by \<^verbatim>\<open>create_demo_boundaries\<close>: the rectangle
  \<open>[68, 75] \<times> [20, 26]\<close> and the line along longitude 68. The region predicate below is the
  open rectangle; it is used at interior and exterior points only.
\<close>

definition demo_polygon :: "coord \<Rightarrow> bool" where
  "demo_polygon p = (68 < fst p \<and> fst p < 75 \<and> 20 < snd p \<and> snd p < 26)"

definition demo_lines :: "coord list list" where
  "demo_lines = [[(68, 23), (68, 24), (68, 25), (68, 26)]]"

text \<open>A stand-in for the geodesic distance on concrete inputs: degrees apart, in metres.\<close>

definition demo_distance :: geodesic_fn where
  "demo_distance a b = 111000 * (\<bar>fst a - fst b\<bar> + \<bar>snd a - snd b\<bar>)"

definition demo_engine :: engine where
  "demo_engine = init_engine demo_polygon demo_lines ''demo''"

text \<open>Requests and environments used in the concrete runs below.\<close>

definition mk_request :: "real \<Rightarrow> real \<Rightarrow> real \<Rightarrow> bool \<Rightarrow> request" where
  "mk_request lat lon t ok =
     \<lparr>lat_arg = Some lat, lon_arg = Some lon, accuracy_arg = Some 10,
      request_env = \<lparr>time_process = t, logged_event_id = 1, call_success = ok,
                     time_call = t + 1\<rparr>\<rparr>"

text \<open>
  Inside, out across the line (the call succeeds), two more positions outside, each more
  than the cooldown after the call, and back inside.
\<close>

definition demo_requests :: "request list" where
  "demo_requests =
     [mk_request 22.5 69 1000 True, mk_request 24.05 67.95 1002 True,
      mk_request 24.2 67.8 1100 True, mk_request 24.2 67.8 1200 True,
      mk_request 23.8 68.2 1300 True]"

definition exit_env :: env where
  "exit_env = \<lparr>time_process = 1000, logged_event_id = 1, call_success = True, time_call = 1001\<rparr>"

definition failed_env :: env where
  "failed_env = \<lparr>time_process = 1000, logged_event_id = 1, call_success = False, time_call = 1001\<rparr>"

text \<open>The engine after one request that left the region and whose call succeeded at 1001.\<close>

definition engine_after_exit :: engine where
  "engine_after_exit =
     snd (gps_endpoint demo_distance Config demo_engine (Some 24.05) (Some 67.95) (Some 10) exit_env)"

text \<open>An engine that is outside the region with two calls made in the running episode.\<close>

definition engine_outside :: engine where
  "engine_outside = demo_engine\<lparr>last_inside_boundary := False, current_inside_boundary := False,
     boundary_crossings := 1, last_call_time := Some 900, calls_for_current_crossing := 2\<rparr>"

definition quota_one :: config where
  "quota_one = Config\<lparr>MAX_EMERGENCY_CALLS := 1\<rparr>"

text \<open>The distance from the position \<open>(lat, lon)\<close> to a vertex \<open>p = (x, y)\<close> of a line.\<close>

definition vertex_distance :: "geodesic_fn \<Rightarrow> real \<Rightarrow> real \<Rightarrow> coord \<Rightarrow> real" where
  "vertex_distance geodesic lat lon p = geodesic (lat, lon) (snd p, fst p)"

section \<open>What one call of process_gps does\<close>

lemma process_gps_frame:
  "india_polygon (snd (process_gps g cfg self lat lon acc now eid)) = india_polygon self"
  "boundary_lines (snd (process_gps g cfg self lat lon acc now eid)) = boundary_lines self"
  "last_call_time (snd (process_gps g cfg self lat lon acc now eid)) = last_call_time self"
  "last_inside_boundary (snd (process_gps g cfg self lat lon acc now eid)) =
     india_polygon self (lon, lat)"
  "inside_boundary (fst (process_gps g cfg self lat lon acc now eid)) =
     india_polygon self (lon, lat)"
  "boundary_crossed (fst (process_gps g cfg self lat lon acc now eid)) =
     (india_polygon self (lon, lat) \<noteq> last_inside_boundary self)"
  by (simp_all add: process_gps_def Let_def)

lemma process_gps_calls:
  "calls_for_current_crossing (snd (process_gps g cfg self lat lon acc now eid)) =
     (if india_polygon self (lon, lat) \<noteq> last_inside_boundary self then 0
      else calls_for_current_crossing self)"
  by (simp add: process_gps_def Let_def)

lemma process_gps_requires:
  "requires_emergency_call (fst (process_gps g cfg self lat lon acc now eid)) =
     (last_inside_boundary self \<and> \<not> india_polygon self (lon, lat) \<and>
      should_make_emergency_call cfg (snd (process_gps g cfg self lat lon acc now eid)) now)"
  by (auto simp add: process_gps_def Let_def)

lemma authorised_needs_quota:
  "requires_emergency_call (fst (process_gps g cfg self lat lon acc now eid)) \<Longrightarrow>
   0 < MAX_EMERGENCY_CALLS cfg"
  unfolding process_gps_requires
  by (auto simp: should_make_emergency_call_def process_gps_calls split: if_splits)

lemma handle_emergency_call_frame:
  "india_polygon (snd (handle_emergency_call mark e p)) = india_polygon (snd p)"
  "boundary_lines (snd (handle_emergency_call mark e p)) = boundary_lines (snd p)"
  "last_inside_boundary (snd (handle_emergency_call mark e p)) = last_inside_boundary (snd p)"
  "boundary_crossings (snd (handle_emergency_call mark e p)) = boundary_crossings (snd p)"
  "inside_boundary (fst (handle_emergency_call mark e p)) = inside_boundary (fst p)"
  "requires_emergency_call (fst (handle_emergency_call mark e p)) =
     requires_emergency_call (fst p)"
  "boundary_crossed (fst (handle_emergency_call mark e p)) = boundary_crossed (fst p)"
  by (simp_all add: handle_emergency_call_def split: prod.splits)

lemma handle_emergency_call_calls:
  "calls_for_current_crossing (snd (handle_emergency_call mark e p)) =
     calls_for_current_crossing (snd p) +
       (if requires_emergency_call (fst p) \<and> call_success e then 1 else 0)"
  by (simp add: handle_emergency_call_def split: prod.splits)

lemma handle_emergency_call_failed:
  "\<not> call_success e \<Longrightarrow> handle_emergency_call mark e p = p"
  by (simp add: handle_emergency_call_def split: prod.splits)

lemma handle_emergency_call_succeeded:
  "call_success e \<Longrightarrow> requires_emergency_call (fst p) \<Longrightarrow>
   last_call_time (snd (handle_emergency_call mark e p)) = Some (time_call e)"
  by (cases p) (simp add: handle_emergency_call_def)

lemma gps_endpoint_rejected:
  "gps_endpoint g cfg E la lo ac e = (Inl err, E') \<Longrightarrow> E' = E"
  by (auto simp: gps_endpoint_def split: option.splits if_splits prod.splits)

lemma gps_endpoint_accepted:
  assumes "gps_endpoint g cfg E la lo ac e = (Inr r, E')"
  obtains lat lon acc where
    "la = Some lat" "lo = Some lon" "ac = Some acc"
    "- 90 \<le> lat" "lat \<le> 90" "- 180 \<le> lon" "lon \<le> 180"
    "handle_emergency_call True e
       (process_gps g cfg E lat lon acc (time_process e) (logged_event_id e)) = (r, E')"
  using assms by (auto simp: gps_endpoint_def split: option.splits if_splits prod.splits)

lemma gps_endpoint_step:
  assumes "gps_endpoint g cfg E la lo ac e = (Inr r, E')"
  shows "last_inside_boundary E' = inside_boundary r"
    and "requires_emergency_call r \<Longrightarrow> last_inside_boundary E \<and> 0 < MAX_EMERGENCY_CALLS cfg"
proof -
  from assms obtain lat lon acc where
    h: "handle_emergency_call True e
       (process_gps g cfg E lat lon acc (time_process e) (logged_event_id e)) = (r, E')"
    by (rule gps_endpoint_accepted)
  let ?p = "process_gps g cfg E lat lon acc (time_process e) (logged_event_id e)"
  have r: "r = fst (handle_emergency_call True e ?p)"
    and E': "E' = snd (handle_emergency_call True e ?p)"
    using h by simp_all
  show "last_inside_boundary E' = inside_boundary r"
    by (simp add: r E' handle_emergency_call_frame process_gps_frame)
  assume "requires_emergency_call r"
  then have req: "requires_emergency_call (fst ?p)"
    by (simp add: r handle_emergency_call_frame)
  then show "last_inside_boundary E \<and> 0 < MAX_EMERGENCY_CALLS cfg"
    using authorised_needs_quota [OF req] by (simp add: process_gps_requires)
qed

section \<open>The throttle decision\<close>

text \<open>
  Whenever the stored \<open>last_call_time\<close> is not the float \<open>0.0\<close>, the decision of the code is
  the rule of the specification.
\<close>

lemma should_make_emergency_call_spec_nonzero:
  "last_call_time self \<noteq> Some 0 \<Longrightarrow>
   should_make_emergency_call cfg self now = mayEscalate_spec cfg self now"
  by (auto simp: should_make_emergency_call_def mayEscalate_spec_def truthy_def
      split: option.splits)

lemma should_make_emergency_call_later:
  assumes "should_make_emergency_call cfg self t0" and "t0 \<le> t"
  shows "should_make_emergency_call cfg self t"
  using assms by (auto simp: should_make_emergency_call_def split: if_splits)

text \<open>
  C1 (the throttle returns true iff the episode's count is below the quota and the last
  escalation time is unset or at least the cooldown ago, for every state and every time).
  The code tests \<^verbatim>\<open>self.last_call_time and ...\<close>, and Python takes the float \<open>0.0\<close> for
  false: with \<open>last_call_time = 0.0\<close>, no call counted and \<open>now = 10\<close>, ten seconds after
  that call and twenty before the cooldown of 30 ends, the code returns true, where the
  rule of the claim gives false.
\<close>

theorem should_make_emergency_call_zero_timestamp:
  "should_make_emergency_call Config (demo_engine\<lparr>last_call_time := Some 0\<rparr>) 10 = True
   \<and> mayEscalate_spec Config (demo_engine\<lparr>last_call_time := Some 0\<rparr>) 10 = False"
  by (simp add: should_make_emergency_call_def mayEscalate_spec_def truthy_def Config_def
      demo_engine_def init_engine_def)

section \<open>When the throttle is consulted\<close>

text \<open>
  C2, as the code has it: \<^verbatim>\<open>process_gps\<close> consults the throttle only under
  \<^verbatim>\<open>if boundary_crossed and not inside_boundary\<close>, that is on the observation that leaves
  the region (the stored containment was inside, the computed one is outside).
  \<open>requires_emergency_call\<close> is true exactly when that holds and the throttle, asked on the
  updated engine at the time of the observation, returns true. On every other observation,
  later outside observations of the same episode included, it is false.
\<close>

theorem requires_emergency_call_only_on_exit:
  "requires_emergency_call (fst (process_gps g cfg self lat lon acc now eid)) =
     (last_inside_boundary self \<and> \<not> india_polygon self (lon, lat) \<and>
      should_make_emergency_call cfg (snd (process_gps g cfg self lat lon acc now eid)) now)"
  by (rule process_gps_requires)

text \<open>
  The claim as stated fails: after an exit at time 1000 whose call succeeded at 1001, a
  further outside observation at time 2000 finds one call counted (quota 3) and the cooldown
  of 30 seconds long over, so the throttle would return true; yet the result does not
  require a call.
\<close>

theorem throttle_on_every_outside_counterexample:
  "\<not> inside_boundary (fst (process_gps demo_distance Config engine_after_exit 24.2 67.8 10 2000 2))
   \<and> last_call_time engine_after_exit = Some 1001
   \<and> calls_for_current_crossing engine_after_exit = 1
   \<and> should_make_emergency_call Config
        (snd (process_gps demo_distance Config engine_after_exit 24.2 67.8 10 2000 2)) 2000
   \<and> \<not> requires_emergency_call
        (fst (process_gps demo_distance Config engine_after_exit 24.2 67.8 10 2000 2))"
  by (simp add: engine_after_exit_def exit_env_def gps_endpoint_def handle_emergency_call_def
      process_gps_def Let_def should_make_emergency_call_def truthy_def Config_def
      demo_engine_def init_engine_def demo_polygon_def)

text \<open>The amended statement on the demonstration engine: the exit requires a call.\<close>

theorem requires_emergency_call_only_on_exit_witness:
  "requires_emergency_call (fst (process_gps demo_distance Config demo_engine 24.05 67.95 10 1000 1))
   \<and> last_inside_boundary demo_engine
   \<and> \<not> india_polygon demo_engine (67.95, 24.05)"
  using requires_emergency_call_only_on_exit
    [where g = demo_distance and cfg = Config and self = demo_engine and lat = "24.05"
       and lon = "67.95" and acc = 10 and now = 1000 and eid = 1]
  by (simp add: process_gps_def Let_def should_make_emergency_call_def truthy_def Config_def
      demo_engine_def init_engine_def demo_polygon_def)

section \<open>The crossing state machine\<close>

text \<open>
  C3: when the computed containment differs from the stored \<open>last_inside_boundary\<close>, the
  result has \<open>boundary_crossed\<close> true, the direction is entered when the position is inside
  and exited otherwise, and the crossing count grows by exactly one; when they are equal,
  \<open>boundary_crossed\<close> is false, there is no direction and the count is unchanged. In both
  cases the stored containment becomes the computed one, and the result reports the
  engine's count.
\<close>

theorem process_gps_transition:
  "(india_polygon self (lon, lat) \<noteq> last_inside_boundary self \<longrightarrow>
      boundary_crossed (fst (process_gps g cfg self lat lon acc now eid)) \<and>
      crossing_direction (fst (process_gps g cfg self lat lon acc now eid)) =
        Some (if india_polygon self (lon, lat) then ''ENTERED_INDIAN_WATERS''
              else ''EXITED_INDIAN_WATERS'') \<and>
      boundary_crossings (snd (process_gps g cfg self lat lon acc now eid)) =
        boundary_crossings self + 1)
   \<and> (india_polygon self (lon, lat) = last_inside_boundary self \<longrightarrow>
      \<not> boundary_crossed (fst (process_gps g cfg self lat lon acc now eid)) \<and>
      crossing_direction (fst (process_gps g cfg self lat lon acc now eid)) = None \<and>
      boundary_crossings (snd (process_gps g cfg self lat lon acc now eid)) =
        boundary_crossings self)
   \<and> inside_boundary (fst (process_gps g cfg self lat lon acc now eid)) =
        india_polygon self (lon, lat)
   \<and> last_inside_boundary (snd (process_gps g cfg self lat lon acc now eid)) =
        india_polygon self (lon, lat)
   \<and> current_inside_boundary (snd (process_gps g cfg self lat lon acc now eid)) =
        india_polygon self (lon, lat)
   \<and> total_crossings (fst (process_gps g cfg self lat lon acc now eid)) =
        boundary_crossings (snd (process_gps g cfg self lat lon acc now eid))"
  by (simp add: process_gps_def Let_def)

text \<open>
  The first two positions of the end-to-end example: inside (no transition), then out
  across the line (one crossing, exited).
\<close>

theorem process_gps_transition_witness:
  "india_polygon demo_engine (69, 22.5) = last_inside_boundary demo_engine
   \<and> \<not> boundary_crossed (fst (process_gps demo_distance Config demo_engine 22.5 69 10 1000 1))
   \<and> boundary_crossings (snd (process_gps demo_distance Config demo_engine 22.5 69 10 1000 1)) = 0
   \<and> india_polygon demo_engine (67.95, 24.05) \<noteq> last_inside_boundary demo_engine
   \<and> boundary_crossed (fst (process_gps demo_distance Config demo_engine 24.05 67.95 10 1000 1))
   \<and> crossing_direction (fst (process_gps demo_distance Config demo_engine 24.05 67.95 10 1000 1))
       = Some ''EXITED_INDIAN_WATERS''
   \<and> boundary_crossings (snd (process_gps demo_distance Config demo_engine 24.05 67.95 10 1000 1))
       = 1"
  using process_gps_transition
      [where g = demo_distance and cfg = Config and self = demo_engine and lat = "22.5"
         and lon = 69 and acc = 10 and now = 1000 and eid = 1]
    process_gps_transition
      [where g = demo_distance and cfg = Config and self = demo_engine and lat = "24.05"
         and lon = "67.95" and acc = 10 and now = 1000 and eid = 1]
  by (simp add: demo_engine_def init_engine_def demo_polygon_def)

text \<open>
  C4: \<^verbatim>\<open>process_gps\<close> sets \<open>calls_for_current_crossing\<close> to 0 on every transition, whichever
  its direction, and leaves it as it was otherwise; the caller's handling of the call never
  lowers it. Hence, from any engine, a position inside the region followed by a position
  outside leaves the counter at 0 when the second \<^verbatim>\<open>process_gps\<close> returns.
\<close>

theorem calls_reset_on_every_transition:
  "calls_for_current_crossing (snd (process_gps g cfg self lat lon acc now eid)) =
     (if india_polygon self (lon, lat) \<noteq> last_inside_boundary self then 0
      else calls_for_current_crossing self)
   \<and> calls_for_current_crossing (snd p) \<le>
       calls_for_current_crossing (snd (handle_emergency_call mark e p))
   \<and> (india_polygon self (lon_a, lat_a) \<and> \<not> india_polygon self (lon_b, lat_b) \<longrightarrow>
        calls_for_current_crossing
          (snd (process_gps g cfg
             (snd (handle_emergency_call mark e_a
                (process_gps g cfg self lat_a lon_a acc_a now_a eid_a)))
             lat_b lon_b acc_b now_b eid_b)) = 0)"
  by (simp add: process_gps_calls process_gps_frame handle_emergency_call_frame
      handle_emergency_call_calls)

text \<open>
  An engine outside the region with two calls counted: re-entering resets the counter, and
  so does the exit that follows.
\<close>

theorem calls_reset_on_every_transition_witness:
  "calls_for_current_crossing engine_outside = 2
   \<and> india_polygon engine_outside (69, 22.5)
   \<and> \<not> india_polygon engine_outside (67.95, 24.05)
   \<and> calls_for_current_crossing
        (snd (process_gps demo_distance Config engine_outside 22.5 69 10 1000 1)) = 0
   \<and> calls_for_current_crossing
        (snd (process_gps demo_distance Config engine_outside 24.05 67.95 10 1000 1)) = 2
   \<and> calls_for_current_crossing
        (snd (process_gps demo_distance Config
           (snd (handle_emergency_call True exit_env
              (process_gps demo_distance Config engine_outside 22.5 69 10 1000 1)))
           24.05 67.95 10 1002 2)) = 0"
  using calls_reset_on_every_transition
      [where g = demo_distance and cfg = Config and self = engine_outside and lat = "22.5"
         and lon = 69 and acc = 10 and now = 1000 and eid = 1 and mark = True
         and e_a = exit_env and lat_a = "22.5" and lon_a = 69 and acc_a = 10 and now_a = 1000
         and eid_a = 1 and lat_b = "24.05" and lon_b = "67.95" and acc_b = 10 and now_b = 1002
         and eid_b = 2]
    calls_reset_on_every_transition
      [where g = demo_distance and cfg = Config and self = engine_outside and lat = "24.05"
         and lon = "67.95" and acc = 10 and now = 1000 and eid = 1]
  by (simp add: engine_outside_def demo_engine_def init_engine_def demo_polygon_def)

section \<open>Distance to the boundary lines\<close>

lemma Min_insert_Min:
  fixes A B :: "real set"
  assumes "finite A" "A \<noteq> {}" "finite B"
  shows "Min (insert (Min A) B) = Min (A \<union> B)"
proof (cases "B = {}")
  case True
  then show ?thesis by simp
next
  case False
  have "Min (insert (Min A) B) = min (Min A) (Min B)"
    using assms(3) False by (rule Min_insert)
  also have "\<dots> = Min (A \<union> B)"
    using Min_Un [OF assms(1,2,3) False] by simp
  finally show ?thesis .
qed

text \<open>
  The inner loop once the running minimum already covers the vertex at the head: every
  further vertex enters the minimum.
\<close>

lemma scan_line_running:
  "x \<le> vertex_distance g lat lon p \<Longrightarrow>
   scan_line g lat lon (p # ps) (Some x) =
     Some (Min (insert x (vertex_distance g lat lon ` set ps)))"
proof (induction ps arbitrary: p x)
  case Nil
  then show ?case by simp
next
  case (Cons q qs)
  let ?d = "vertex_distance g lat lon"
  have le: "min x (?d q) \<le> ?d q" by simp
  have "scan_line g lat lon (p # q # qs) (Some x) =
        scan_line g lat lon (q # qs) (Some (min x (?d q)))"
    using Cons.prems by (simp add: min_inf_def vertex_distance_def min_def)
  also have "\<dots> = Some (Min (insert (min x (?d q)) (?d ` set qs)))"
    by (rule Cons.IH [OF le])
  also have "Min (insert (min x (?d q)) (?d ` set qs)) = Min (insert x (?d ` set (q # qs)))"
  proof (cases "qs = []")
    case True
    then show ?thesis by simp
  next
    case False
    then show ?thesis by (simp add: min.assoc)
  qed
  finally show ?case .
qed

text \<open>A line of no or at least two coordinates contributes all of its vertices.\<close>

lemma scan_line_Min:
  assumes "length ps \<noteq> 1"
  shows "scan_line g lat lon ps m =
     (if set_option m \<union> vertex_distance g lat lon ` set ps = {} then None
      else Some (Min (set_option m \<union> vertex_distance g lat lon ` set ps)))"
proof (cases ps)
  case Nil
  then show ?thesis by (cases m) simp_all
next
  case (Cons p1 ps1)
  with assms obtain p2 rest where ps: "ps = p1 # p2 # rest"
    by (cases ps1) auto
  let ?d = "vertex_distance g lat lon"
  obtain x where x: "min_inf m (?d p1) (?d p2) = Some x"
    and xle: "x \<le> ?d p2"
    and xmin: "x = Min (set_option m \<union> {?d p1, ?d p2})"
    by (cases m) (auto simp: min_inf_def)
  have "scan_line g lat lon ps m = scan_line g lat lon (p2 # rest) (Some x)"
    using x by (simp add: ps vertex_distance_def)
  also have "\<dots> = Some (Min (insert x (?d ` set rest)))"
    by (rule scan_line_running [OF xle])
  also have "Min (insert x (?d ` set rest)) = Min (set_option m \<union> ?d ` set ps)"
  proof -
    define A where "A = set_option m \<union> {?d p1, ?d p2}"
    define B where "B = ?d ` set rest"
    have fin: "finite A" unfolding A_def by (cases m) simp_all
    have ne: "A \<noteq> {}" unfolding A_def by simp
    have finB: "finite B" unfolding B_def by simp
    have AB: "A \<union> B = set_option m \<union> ?d ` set ps"
      unfolding A_def B_def by (auto simp: ps)
    have "Min (insert (Min A) B) = Min (A \<union> B)"
      by (rule Min_insert_Min [OF fin ne finB])
    then show ?thesis
      unfolding AB unfolding A_def B_def xmin [symmetric] .
  qed
  finally show ?thesis by (simp add: ps)
qed

lemma scan_lines_Min:
  "\<forall>l \<in> set lines. length l \<noteq> 1 \<Longrightarrow>
   scan_lines g lat lon lines m =
     (if set_option m \<union> vertex_distance g lat lon ` (\<Union>l \<in> set lines. set l) = {} then None
      else Some (Min (set_option m \<union> vertex_distance g lat lon ` (\<Union>l \<in> set lines. set l))))"
proof (induction lines arbitrary: m)
  case Nil
  then show ?case by (cases m) simp_all
next
  case (Cons l ls)
  let ?d = "vertex_distance g lat lon"
  let ?m' = "scan_line g lat lon l m"
  have l: "length l \<noteq> 1" and ls: "\<forall>k \<in> set ls. length k \<noteq> 1"
    using Cons.prems by simp_all
  have m': "set_option m \<union> ?d ` set l = {} \<Longrightarrow> ?m' = None"
    "set_option m \<union> ?d ` set l \<noteq> {} \<Longrightarrow> ?m' = Some (Min (set_option m \<union> ?d ` set l))"
    using scan_line_Min [OF l, of g lat lon m] by simp_all
  have fin: "finite (set_option m \<union> ?d ` set l)" by (cases m) simp_all
  have fin2: "finite (?d ` (\<Union>k \<in> set ls. set k))" by simp
  have split: "set_option m \<union> ?d ` (\<Union>k \<in> set (l # ls). set k) =
      (set_option m \<union> ?d ` set l) \<union> ?d ` (\<Union>k \<in> set ls. set k)"
    by auto
  show ?case
  proof (cases "set_option m \<union> ?d ` set l = {}")
    case True
    then show ?thesis
      using Cons.IH [OF ls, of None] m'(1) by (simp add: split)
  next
    case False
    note ne = this
    have step: "scan_lines g lat lon (l # ls) m =
       Some (Min (insert (Min (set_option m \<union> ?d ` set l)) (?d ` (\<Union>k \<in> set ls. set k))))"
      using Cons.IH [OF ls, of "Some (Min (set_option m \<union> ?d ` set l))"] m'(2) [OF ne]
      by simp
    have "Min (insert (Min (set_option m \<union> ?d ` set l)) (?d ` (\<Union>k \<in> set ls. set k))) =
          Min ((set_option m \<union> ?d ` set l) \<union> ?d ` (\<Union>k \<in> set ls. set k))"
      by (rule Min_insert_Min [OF fin ne fin2])
    moreover have "(set_option m \<union> ?d ` set l) \<union> ?d ` (\<Union>k \<in> set ls. set k) \<noteq> {}"
      using ne by blast
    ultimately show ?thesis
      unfolding split step by (simp only: if_False)
  qed
qed

text \<open>
  C5: with no boundary line configured the distance is 0. When every line is a line string
  (no coordinates or at least two; shapely builds no line of a single coordinate), the
  distance is the least geodesic distance from the position to a vertex of a line, taken
  over all lines and all their vertices, and 0 when there is no vertex at all. The geodesic
  distance itself is the library's (geopy) and is a parameter here.
\<close>

theorem calculate_boundary_distance_min:
  "(boundary_lines self = [] \<longrightarrow> calculate_boundary_distance g self lat lon = 0) \<and>
   ((\<forall>l \<in> set (boundary_lines self). length l \<noteq> 1) \<longrightarrow>
      calculate_boundary_distance g self lat lon =
        (if (\<Union>l \<in> set (boundary_lines self). set l) = {} then 0
         else Min ((\<lambda>p. g (lat, lon) (snd p, fst p)) `
                   (\<Union>l \<in> set (boundary_lines self). set l))))"
proof -
  have eq: "vertex_distance g lat lon = (\<lambda>p. g (lat, lon) (snd p, fst p))"
    by (rule ext) (simp add: vertex_distance_def)
  show ?thesis
    using scan_lines_Min [of "boundary_lines self" g lat lon None]
    by (auto simp: calculate_boundary_distance_def eq)
qed

text \<open>
  The demonstration line seen from the exit position: its four vertices are 1.1, 0.1, 1.0
  and 2.0 degrees away, and the nearest, \<open>(68, 24)\<close>, gives the distance. An engine without
  lines reports 0.
\<close>

theorem calculate_boundary_distance_min_witness:
  "boundary_lines demo_engine = [[(68, 23), (68, 24), (68, 25), (68, 26)]]
   \<and> calculate_boundary_distance demo_distance demo_engine 24.05 67.95
       = Min {demo_distance (24.05, 67.95) (23, 68), demo_distance (24.05, 67.95) (24, 68),
              demo_distance (24.05, 67.95) (25, 68), demo_distance (24.05, 67.95) (26, 68)}
   \<and> calculate_boundary_distance demo_distance demo_engine 24.05 67.95
       = demo_distance (24.05, 67.95) (24, 68)
   \<and> calculate_boundary_distance demo_distance (init_engine demo_polygon [] ''demo'') 24.05 67.95
       = 0"
  using calculate_boundary_distance_min
      [where g = demo_distance and self = demo_engine and lat = "24.05" and lon = "67.95"]
    calculate_boundary_distance_min
      [where g = demo_distance and self = "init_engine demo_polygon [] ''demo''"
         and lat = "24.05" and lon = "67.95"]
  by (simp add: demo_engine_def init_engine_def demo_lines_def demo_distance_def)

section \<open>The request handler\<close>

text \<open>
  C6: a request whose latitude is outside \<open>[-90, 90]\<close> or whose longitude is outside
  \<open>[-180, 180]\<close> is answered with the error "Invalid coordinates" (status 400) and the
  engine is returned as it was: \<^verbatim>\<open>process_gps\<close> is not called. (If the accuracy argument does
  not parse, the handler has already failed with status 500; the engine is untouched then
  too.)
\<close>

theorem gps_endpoint_invalid_coordinates:
  assumes "lat < - 90 \<or> 90 < lat \<or> lon < - 180 \<or> 180 < lon"
  shows "gps_endpoint g cfg ENGINE (Some lat) (Some lon) (Some acc) e =
           (Inl (Bad_request ''Invalid coordinates''), ENGINE)
       \<and> isl (fst (gps_endpoint g cfg ENGINE (Some lat) (Some lon) accuracy e))
       \<and> snd (gps_endpoint g cfg ENGINE (Some lat) (Some lon) accuracy e) = ENGINE"
  using assms by (cases accuracy) (auto simp: gps_endpoint_def)

text \<open>Latitude 91 and longitude -200 are both rejected, whatever state the engine is in.\<close>

theorem gps_endpoint_invalid_coordinates_witness:
  "gps_endpoint demo_distance Config engine_outside (Some 91) (Some 69) (Some 10) exit_env =
     (Inl (Bad_request ''Invalid coordinates''), engine_outside)
   \<and> gps_endpoint demo_distance Config engine_outside (Some 22.5) (Some (- 200)) (Some 10) exit_env =
     (Inl (Bad_request ''Invalid coordinates''), engine_outside)"
  using gps_endpoint_invalid_coordinates
      [where lat = 91 and lon = 69 and g = demo_distance and cfg = Config
         and ENGINE = engine_outside and acc = 10 and e = exit_env]
    gps_endpoint_invalid_coordinates
      [where lat = "22.5" and lon = "- 200" and g = demo_distance and cfg = Config
         and ENGINE = engine_outside and acc = 10 and e = exit_env]
  by simp

lemma handle_emergency_call_not_required:
  "\<not> requires_emergency_call (fst p) \<Longrightarrow> handle_emergency_call mark e p = p"
  by (cases p) (simp add: handle_emergency_call_def)

lemma should_make_emergency_call_cong:
  "calls_for_current_crossing a = calls_for_current_crossing b \<Longrightarrow>
   last_call_time a = last_call_time b \<Longrightarrow>
   should_make_emergency_call cfg a t = should_make_emergency_call cfg b t"
  by (simp add: should_make_emergency_call_def)

text \<open>
  C7, as the code has it: when a request's result requires a call, the outcome of the call
  decides what the engine keeps. After a successful call the episode's counter is 1 (the
  exit had reset it to 0) and \<open>last_call_time\<close> is the time of the call; after a failed call
  the counter is still 0 and \<open>last_call_time\<close> is what it was before the request. Whatever
  the outcome, the observation that follows requires no call, since the engine is outside
  and the throttle is consulted on an exit only. After a failed call, the next exit (a
  position inside the region, then a position outside at any time from the failed attempt
  on) requires a call again: the failure has used neither quota nor cooldown.
\<close>

theorem failed_call_keeps_counter_and_cooldown:
  assumes run: "gps_endpoint g cfg ENGINE la lo ac e = (Inr res, ENGINE')"
    and auth: "requires_emergency_call res"
  shows "(if call_success e
          then calls_for_current_crossing ENGINE' = 1 \<and>
               last_call_time ENGINE' = Some (time_call e)
          else calls_for_current_crossing ENGINE' = 0 \<and>
               last_call_time ENGINE' = last_call_time ENGINE)
     \<and> \<not> requires_emergency_call
           (fst (process_gps g cfg ENGINE' lat_n lon_n acc_n now_n eid_n))
     \<and> (\<not> call_success e \<and> india_polygon ENGINE (lon_a, lat_a) \<and>
          \<not> india_polygon ENGINE (lon_b, lat_b) \<and> time_process e \<le> now_b \<longrightarrow>
          requires_emergency_call
            (fst (process_gps g cfg
               (snd (handle_emergency_call mark e_a
                  (process_gps g cfg ENGINE' lat_a lon_a acc_a now_a eid_a)))
               lat_b lon_b acc_b now_b eid_b)))"
proof -
  from run obtain lat lon acc where
    h: "handle_emergency_call True e
       (process_gps g cfg ENGINE lat lon acc (time_process e) (logged_event_id e)) = (res, ENGINE')"
    by (rule gps_endpoint_accepted)
  let ?p = "process_gps g cfg ENGINE lat lon acc (time_process e) (logged_event_id e)"
  have res: "res = fst (handle_emergency_call True e ?p)"
    and E': "ENGINE' = snd (handle_emergency_call True e ?p)"
    using h by simp_all
  have req: "requires_emergency_call (fst ?p)"
    using auth by (simp add: res handle_emergency_call_frame)
  then have crossed: "india_polygon ENGINE (lon, lat) \<noteq> last_inside_boundary ENGINE"
    and outside: "\<not> india_polygon ENGINE (lon, lat)"
    and ok: "should_make_emergency_call cfg (snd ?p) (time_process e)"
    by (auto simp: process_gps_requires)
  have zero: "calls_for_current_crossing (snd ?p) = 0"
    using crossed by (simp add: process_gps_calls)
  have out': "\<not> last_inside_boundary ENGINE'"
    using outside by (simp add: E' handle_emergency_call_frame process_gps_frame)
  have poly: "india_polygon ENGINE' = india_polygon ENGINE"
    by (simp add: E' handle_emergency_call_frame process_gps_frame)
  have state: "if call_success e
          then calls_for_current_crossing ENGINE' = 1 \<and>
               last_call_time ENGINE' = Some (time_call e)
          else calls_for_current_crossing ENGINE' = 0 \<and>
               last_call_time ENGINE' = last_call_time ENGINE"
  proof (cases "call_success e")
    case True
    then show ?thesis
      using req zero by (simp add: E' handle_emergency_call_calls handle_emergency_call_succeeded)
  next
    case False
    then have "ENGINE' = snd ?p"
      by (simp add: E' handle_emergency_call_failed)
    then show ?thesis
      using False zero by (simp add: process_gps_frame)
  qed
  have nxt: "\<not> requires_emergency_call
           (fst (process_gps g cfg ENGINE' lat_n lon_n acc_n now_n eid_n))"
    using out' by (simp add: process_gps_requires)
  have again: "requires_emergency_call
            (fst (process_gps g cfg
               (snd (handle_emergency_call mark e_a
                  (process_gps g cfg ENGINE' lat_a lon_a acc_a now_a eid_a)))
               lat_b lon_b acc_b now_b eid_b))"
    if fail: "\<not> call_success e" and ins: "india_polygon ENGINE (lon_a, lat_a)"
      and outs: "\<not> india_polygon ENGINE (lon_b, lat_b)" and later: "time_process e \<le> now_b"
  proof -
    let ?pa = "process_gps g cfg ENGINE' lat_a lon_a acc_a now_a eid_a"
    let ?Ea = "snd (handle_emergency_call mark e_a ?pa)"
    let ?pb = "process_gps g cfg ?Ea lat_b lon_b acc_b now_b eid_b"
    have "\<not> requires_emergency_call (fst ?pa)"
      using out' by (simp add: process_gps_requires)
    then have Ea: "?Ea = snd ?pa"
      by (simp add: handle_emergency_call_not_required)
    have last: "last_call_time ENGINE' = last_call_time ENGINE"
      and cnt: "calls_for_current_crossing ENGINE' = 0"
      using state fail by simp_all
    have in_a: "last_inside_boundary ?Ea"
      using ins by (simp add: Ea process_gps_frame poly)
    have poly_a: "india_polygon ?Ea = india_polygon ENGINE"
      by (simp add: Ea process_gps_frame poly)
    have calls_b: "calls_for_current_crossing (snd ?pb) = 0"
      using in_a outs by (simp add: process_gps_calls poly_a)
    have last_a: "last_call_time ?Ea = last_call_time ENGINE"
      unfolding Ea by (simp add: process_gps_frame last)
    have "should_make_emergency_call cfg (snd ?pb) (time_process e)
          = should_make_emergency_call cfg (snd ?p) (time_process e)"
      by (rule should_make_emergency_call_cong) (simp_all add: calls_b zero last_a process_gps_frame)
    then have "should_make_emergency_call cfg (snd ?pb) (time_process e)"
      using ok by simp
    then have "should_make_emergency_call cfg (snd ?pb) now_b"
      using later by (rule should_make_emergency_call_later)
    then show ?thesis
      unfolding process_gps_requires [of g cfg ?Ea] using in_a outs by (simp add: poly_a)
  qed
  show ?thesis
    using state nxt again by blast
qed

text \<open>
  With a quota of 1: the exit at time 1000 requires a call and the call fails. The engine
  keeps a counter of 0 and no \<open>last_call_time\<close>; a further position outside at 1002
  requires no call; re-entering at 1002 and leaving again at 1004 requires one.
\<close>

theorem failed_call_keeps_counter_and_cooldown_witness:
  "requires_emergency_call (projr (fst (gps_endpoint demo_distance quota_one demo_engine
       (Some 24.05) (Some 67.95) (Some 10) failed_env)))
   \<and> calls_for_current_crossing (snd (gps_endpoint demo_distance quota_one demo_engine
       (Some 24.05) (Some 67.95) (Some 10) failed_env)) = 0
   \<and> last_call_time (snd (gps_endpoint demo_distance quota_one demo_engine
       (Some 24.05) (Some 67.95) (Some 10) failed_env)) = None
   \<and> \<not> requires_emergency_call (fst (process_gps demo_distance quota_one
       (snd (gps_endpoint demo_distance quota_one demo_engine
          (Some 24.05) (Some 67.95) (Some 10) failed_env)) 24.2 67.8 10 1002 2))
   \<and> requires_emergency_call (fst (process_gps demo_distance quota_one
       (snd (handle_emergency_call True exit_env (process_gps demo_distance quota_one
          (snd (gps_endpoint demo_distance quota_one demo_engine
             (Some 24.05) (Some 67.95) (Some 10) failed_env)) 22.5 69 10 1002 2)))
       24.05 67.95 10 1004 3))"
proof -
  obtain res E' where run: "gps_endpoint demo_distance quota_one demo_engine
       (Some 24.05) (Some 67.95) (Some 10) failed_env = (Inr res, E')"
    and auth: "requires_emergency_call res"
    by (simp add: failed_env_def quota_one_def gps_endpoint_def handle_emergency_call_def
      process_gps_def Let_def should_make_emergency_call_def truthy_def Config_def
      demo_engine_def init_engine_def demo_polygon_def)
  have fail: "\<not> call_success failed_env" and t: "time_process failed_env \<le> 1004"
    by (simp_all add: failed_env_def)
  have init: "last_call_time demo_engine = None"
    and ins: "india_polygon demo_engine (69, 22.5)"
    and outs: "\<not> india_polygon demo_engine (67.95, 24.05)"
    by (simp_all add: demo_engine_def init_engine_def demo_polygon_def)
  show ?thesis
    unfolding run
    using failed_call_keeps_counter_and_cooldown [OF run auth,
        where lat_n = "24.2" and lon_n = "67.8" and acc_n = 10 and now_n = 1002 and eid_n = 2
          and lat_a = "22.5" and lon_a = 69 and acc_a = 10 and now_a = 1002 and eid_a = 2
          and lat_b = "24.05" and lon_b = "67.95" and acc_b = 10 and now_b = 1004 and eid_b = 3
          and mark = True and e_a = exit_env]
      fail t auth ins outs
    by (simp add: init)
qed

text \<open>
  The claim as stated fails: with a quota of 1 the exit at time 1000 requires a call, the
  call fails, the engine keeps a counter of 0 and no \<open>last_call_time\<close>, and the throttle
  asked on that engine at 1002 would return true; yet the next observation, outside at
  1002, requires no call.
\<close>

theorem next_observation_after_failed_call_counterexample:
  "MAX_EMERGENCY_CALLS quota_one = 1
   \<and> map requires_emergency_call (serve demo_distance quota_one demo_engine
        [mk_request 24.05 67.95 1000 False, mk_request 24.2 67.8 1002 True]) = [True, False]
   \<and> map inside_boundary (serve demo_distance quota_one demo_engine
        [mk_request 24.05 67.95 1000 False, mk_request 24.2 67.8 1002 True]) = [False, False]
   \<and> calls_for_current_crossing (snd (gps_endpoint demo_distance quota_one demo_engine
        (Some 24.05) (Some 67.95) (Some 10) failed_env)) = 0
   \<and> last_call_time (snd (gps_endpoint demo_distance quota_one demo_engine
        (Some 24.05) (Some 67.95) (Some 10) failed_env)) = None
   \<and> should_make_emergency_call quota_one (snd (gps_endpoint demo_distance quota_one demo_engine
        (Some 24.05) (Some 67.95) (Some 10) failed_env)) 1002"
  by (simp add: mk_request_def failed_env_def quota_one_def gps_endpoint_def
      handle_emergency_call_def process_gps_def Let_def should_make_emergency_call_def
      truthy_def Config_def demo_engine_def init_engine_def demo_polygon_def)

text \<open>
  The same with whole requests and a quota of 1: the first exit's call fails; after
  re-entering, the exit at 1004 requires a call again and this one succeeds; after
  re-entering once more, the exit at 1008 falls into the cooldown of the successful call.
\<close>

lemma quota_one_scenario:
  "map requires_emergency_call (serve demo_distance quota_one demo_engine
      [mk_request 24.05 67.95 1000 False, mk_request 22.5 69 1002 True,
       mk_request 24.05 67.95 1004 True, mk_request 22.5 69 1006 True,
       mk_request 24.05 67.95 1008 True]) = [True, False, True, False, False]"
  by (simp add: mk_request_def quota_one_def gps_endpoint_def handle_emergency_call_def
      process_gps_def Let_def should_make_emergency_call_def truthy_def Config_def
      demo_engine_def init_engine_def demo_polygon_def)

section \<open>Escalations within one outside episode\<close>

text \<open>Every suffix of a run is itself a run, from the engine reached at that point.\<close>

lemma serve_drop:
  "\<exists>E' rqs'. drop i (serve g cfg E rqs) = serve g cfg E' rqs'"
proof (induction rqs arbitrary: E i)
  case Nil
  show ?case by (rule exI [of _ E], rule exI [of _ "[]"]) simp
next
  case (Cons rq rqs)
  obtain resp E1 where step:
    "gps_endpoint g cfg E (lat_arg rq) (lon_arg rq) (accuracy_arg rq) (request_env rq) = (resp, E1)"
    by (cases "gps_endpoint g cfg E (lat_arg rq) (lon_arg rq) (accuracy_arg rq) (request_env rq)")
  show ?case
  proof (cases resp)
    case (Inl err)
    then have "serve g cfg E (rq # rqs) = serve g cfg E1 rqs" using step by simp
    then show ?thesis using Cons.IH [of i E1] by simp
  next
    case (Inr r)
    then have eq: "serve g cfg E (rq # rqs) = r # serve g cfg E1 rqs" using step by simp
    show ?thesis
    proof (cases i)
      case 0
      show ?thesis by (rule exI [of _ E], rule exI [of _ "rq # rqs"]) (simp add: 0)
    next
      case (Suc j)
      show ?thesis using Cons.IH [of j E1] unfolding eq Suc by simp
    qed
  qed
qed

text \<open>Once the engine is outside, a run of outside results requires no call.\<close>

lemma outside_run_no_escalation:
  "\<not> last_inside_boundary E \<Longrightarrow>
   \<forall>r \<in> set (take n (serve g cfg E rqs)). \<not> inside_boundary r \<Longrightarrow>
   filter requires_emergency_call (take n (serve g cfg E rqs)) = []"
proof (induction rqs arbitrary: E n)
  case Nil
  then show ?case by simp
next
  case (Cons rq rqs)
  obtain resp E1 where step:
    "gps_endpoint g cfg E (lat_arg rq) (lon_arg rq) (accuracy_arg rq) (request_env rq) = (resp, E1)"
    by (cases "gps_endpoint g cfg E (lat_arg rq) (lon_arg rq) (accuracy_arg rq) (request_env rq)")
  show ?case
  proof (cases resp)
    case (Inl err)
    then have E1: "E1 = E" using step gps_endpoint_rejected by blast
    have eq: "serve g cfg E (rq # rqs) = serve g cfg E rqs" using step Inl E1 by simp
    show ?thesis unfolding eq using Cons.IH [of E n] Cons.prems unfolding eq by simp
  next
    case (Inr r)
    then have eq: "serve g cfg E (rq # rqs) = r # serve g cfg E1 rqs" using step by simp
    have st: "gps_endpoint g cfg E (lat_arg rq) (lon_arg rq) (accuracy_arg rq) (request_env rq)
        = (Inr r, E1)"
      using step Inr by simp
    show ?thesis
    proof (cases n)
      case 0
      then show ?thesis by simp
    next
      case (Suc m)
      have out: "\<not> inside_boundary r"
        and rest: "\<forall>r \<in> set (take m (serve g cfg E1 rqs)). \<not> inside_boundary r"
        using Cons.prems(2) unfolding eq Suc by simp_all
      have noreq: "\<not> requires_emergency_call r"
        using gps_endpoint_step(2) [OF st] Cons.prems(1) by blast
      have "\<not> last_inside_boundary E1"
        using gps_endpoint_step(1) [OF st] out by simp
      then have "filter requires_emergency_call (take m (serve g cfg E1 rqs)) = []"
        using rest by (rule Cons.IH)
      then show ?thesis unfolding eq Suc using noreq by simp
    qed
  qed
qed

text \<open>
  From any engine, a run of outside results requires at most one call, the one of its first
  result, and only under a positive quota.
\<close>

lemma outside_run_first:
  "\<forall>r \<in> set (take n (serve g cfg E rqs)). \<not> inside_boundary r \<Longrightarrow>
   length (filter requires_emergency_call (take n (serve g cfg E rqs))) \<le> 1 \<and>
   (filter requires_emergency_call (take n (serve g cfg E rqs)) \<noteq> [] \<longrightarrow>
      0 < MAX_EMERGENCY_CALLS cfg)"
proof (induction rqs arbitrary: E)
  case Nil
  then show ?case by simp
next
  case (Cons rq rqs)
  obtain resp E1 where step:
    "gps_endpoint g cfg E (lat_arg rq) (lon_arg rq) (accuracy_arg rq) (request_env rq) = (resp, E1)"
    by (cases "gps_endpoint g cfg E (lat_arg rq) (lon_arg rq) (accuracy_arg rq) (request_env rq)")
  show ?case
  proof (cases resp)
    case (Inl err)
    have eq: "serve g cfg E (rq # rqs) = serve g cfg E1 rqs" using step Inl by simp
    show ?thesis unfolding eq using Cons.IH [of E1] Cons.prems unfolding eq by simp
  next
    case (Inr r)
    then have eq: "serve g cfg E (rq # rqs) = r # serve g cfg E1 rqs" using step by simp
    have st: "gps_endpoint g cfg E (lat_arg rq) (lon_arg rq) (accuracy_arg rq) (request_env rq)
        = (Inr r, E1)"
      using step Inr by simp
    show ?thesis
    proof (cases n)
      case 0
      then show ?thesis by simp
    next
      case (Suc m)
      have out: "\<not> inside_boundary r"
        and rest: "\<forall>r \<in> set (take m (serve g cfg E1 rqs)). \<not> inside_boundary r"
        using Cons.prems unfolding eq Suc by simp_all
      have "\<not> last_inside_boundary E1"
        using gps_endpoint_step(1) [OF st] out by simp
      then have tail: "filter requires_emergency_call (take m (serve g cfg E1 rqs)) = []"
        using rest by (rule outside_run_no_escalation)
      show ?thesis unfolding eq Suc using tail gps_endpoint_step(2) [OF st] by simp
    qed
  qed
qed

text \<open>
  C8: take the results of any sequence of requests, served from any engine state with any
  times and call outcomes, and any stretch of consecutive results (\<open>n\<close> results from
  position \<open>i\<close>) that are all outside the region; every outside episode is such a stretch.
  For a quota that is not negative, the number of results in the stretch that require a
  call is at most \<open>MAX_EMERGENCY_CALLS\<close>.
\<close>

theorem escalations_per_outside_episode:
  assumes quota: "0 \<le> MAX_EMERGENCY_CALLS cfg"
    and episode: "\<forall>r \<in> set (take n (drop i (serve g cfg ENGINE rqs))). \<not> inside_boundary r"
  shows "int (length (filter requires_emergency_call (take n (drop i (serve g cfg ENGINE rqs)))))
           \<le> MAX_EMERGENCY_CALLS cfg"
proof -
  obtain E' rqs' where d: "drop i (serve g cfg ENGINE rqs) = serve g cfg E' rqs'"
    using serve_drop by blast
  let ?auth = "filter requires_emergency_call (take n (serve g cfg E' rqs'))"
  have "\<forall>r \<in> set (take n (serve g cfg E' rqs')). \<not> inside_boundary r"
    using episode unfolding d .
  then have le1: "length ?auth \<le> 1" and pos: "?auth \<noteq> [] \<longrightarrow> 0 < MAX_EMERGENCY_CALLS cfg"
    using outside_run_first [of n g cfg E' rqs'] by simp_all
  show ?thesis
  proof (cases "?auth = []")
    case True
    then show ?thesis using quota unfolding d by simp
  next
    case False
    then have "0 < MAX_EMERGENCY_CALLS cfg" using pos by simp
    moreover have "int (length ?auth) \<le> 1" using le1 by simp
    ultimately show ?thesis unfolding d by linarith
  qed
qed

text \<open>
  The demonstration run: results 2 to 4 form the outside episode; its first result requires
  a call, the two later ones do not although the cooldown has passed.
\<close>

theorem escalations_per_outside_episode_witness:
  "0 \<le> MAX_EMERGENCY_CALLS Config
   \<and> map inside_boundary (serve demo_distance Config demo_engine demo_requests)
       = [True, False, False, False, True]
   \<and> map requires_emergency_call (serve demo_distance Config demo_engine demo_requests)
       = [False, True, False, False, False]
   \<and> int (length (filter requires_emergency_call
        (take 3 (drop 1 (serve demo_distance Config demo_engine demo_requests)))))
       \<le> MAX_EMERGENCY_CALLS Config"
  using escalations_per_outside_episode [of Config 3 1 demo_distance demo_engine demo_requests]
  by (simp add: demo_requests_def mk_request_def gps_endpoint_def handle_emergency_call_def
      process_gps_def Let_def should_make_emergency_call_def truthy_def Config_def
      demo_engine_def init_engine_def demo_polygon_def)

end
